theory Spec2Isabelle
  imports Main "HOL-Library.Word"
begin

section \<open>Go errors\<close>

text \<open>
  A Go \<open>error\<close> is modelled by its message (what \<open>Error()\<close> returns); a value of
  the interface type \<open>error\<close> is an \<open>error option\<close>, with \<open>None\<close> for \<open>nil\<close>.
  \<open>errors_New\<close> and \<open>errors_Wrap\<close> are the two functions of \<open>github.com/pkg/errors\<close>
  that the persistence tier calls. \<open>Wrap\<close> is documented there as: "If err is nil,
  Wrap returns nil"; otherwise the message is prefixed to the cause.
\<close>

type_synonym error = string

definition errors_New :: "string \<Rightarrow> error option" where
  "errors_New msg = Some msg"

definition errors_Wrap :: "error option \<Rightarrow> string \<Rightarrow> error option" where
  "errors_Wrap err msg = (case err of None \<Rightarrow> None | Some e \<Rightarrow> Some (msg @ '': '' @ e))"

section \<open>Records of the crawler and the queries they map to\<close>

text \<open>
  The packages \<open>models\<close> and \<open>eth\<close> are outside the two source files; the structs keep
  the fields the persister reads, timestamps are integers. The attributes of a host are
  the dynamic types the inner type switch of \<open>launchPersister\<close> tells apart;
  \<open>OtherAttr\<close> stands for a value of any other type.
\<close>

record PeerInfo =
  RemotePeer :: string
  PeerUserAgent :: string

record BeaconStatus =
  StatusTimestamp :: int
  StatusContent :: string

record BeaconMetadata =
  MetadataTimestamp :: int
  MetadataContent :: string

record EnrNodeInfo =
  EnrID :: string
  EnrSeq :: nat

datatype attribute =
    BeaconStatusStamped BeaconStatus
  | BeaconMetadataStamped BeaconMetadata
  | EnrNode EnrNodeInfo
  | OtherAttr string

text \<open>
  \<open>Attr\<close> is a Go map; the list holds its entries in the order in which the
  \<open>range\<close> loop of one run visits them (Go fixes no order).
\<close>

record HostInfo =
  ID :: string
  IP :: string
  HostPeerInfo :: PeerInfo
  Attr :: "(string \<times> attribute) list"

record ConnectionAttempt =
  AttemptRemotePeer :: string
  AttemptTimestamp :: int
  AttemptStatus :: string

record ConnEvent =
  PeerID :: string
  ConnTime :: int
  DiscTime :: int

record IpInfo =
  IpAddr :: string
  IpCountry :: string

text \<open>
  What a producer can send through \<open>persistC\<close> (a \<open>chan interface{}\<close>): the five
  dynamic types of the outer type switch, and \<open>OtherObj\<close> for a value of any other
  type. A pointer stands for the record it points to, so it is not \<open>nil\<close>.
\<close>

datatype obj =
    HostInfoPtr HostInfo
  | PeerInfoPtr PeerInfo
  | ConnectionAttemptPtr ConnectionAttempt
  | ConnEventPtr ConnEvent
  | IpInfoVal IpInfo
  | OtherObj string

text \<open>
  A queued query is the pair (statement, arguments) that one of the query builders of
  \<open>DBClient\<close> returns. The builders are outside the two source files, so a query is
  named by the builder that made it and the arguments it was called with.
\<close>

datatype query =
    UpsertHostInfo HostInfo
  | UpdatePeerInfo PeerInfo
  | UpsertEthereumNodeStatus BeaconStatus
  | UpsertEthereumNodeMetadata BeaconMetadata
  | UpsertEnrInfo EnrNodeInfo
  | UpdateConnAttempt ConnectionAttempt
  | InsertNewConnEvent ConnEvent
  | UpdateLastActivityTimestamp string int
  | UpsertIpInfo IpInfo

type_synonym batch = "query list"

section \<open>The store\<close>

text \<open>
  The pool is seen through the calls made on it, each with its outcome. A \<open>tx_reply\<close>
  says how the store answers one transaction: whether \<open>Begin\<close> fails, what the
  successive calls of \<open>batchResults.Query()\<close> return (\<open>None\<close> for a result, \<open>Some e\<close>
  for an error; once the results are used up pgx returns the error \<open>no result\<close>), and
  whether \<open>Commit\<close> fails.
\<close>

datatype pg_call =
    Connect string "error option"
  | Ping "error option"
  | InitTable string "error option"
  | Begin "error option"
  | SendBatch batch
  | Query "error option"
  | Commit "error option"
  | ClosePool

record tx_reply =
  begin_err :: "error option"
  results :: "error option list"
  commit_err :: "error option"

definition batchSize :: nat where
  "batchSize = 256"

definition noQueryResult :: string where
  "noQueryResult = ''no result''"

definition isReadyToPersistFn :: "batch \<Rightarrow> bool" where
  "isReadyToPersistFn b = (length b \<ge> batchSize)"

definition batchQueryFn :: "batch \<Rightarrow> query \<Rightarrow> batch" where
  "batchQueryFn b q = b @ [q]"

text \<open>
  The loop \<open>for qerr == nil\<close> of \<open>persistBatchFn\<close>: it returns the counter, the error
  that ended it and the calls made.
\<close>

fun queryLoop :: "error option list \<Rightarrow> nat \<Rightarrow> pg_call list \<Rightarrow> nat \<times> error \<times> pg_call list" where
  "queryLoop [] cnt tr = (cnt + 1, noQueryResult, tr @ [Query (Some noQueryResult)])"
| "queryLoop (None # rs) cnt tr = queryLoop rs (cnt + 1) (tr @ [Query None])"
| "queryLoop (Some e # rs) cnt tr = (cnt + 1, e, tr @ [Query (Some e)])"

fun string_of_nat :: "nat \<Rightarrow> string" where
  "string_of_nat n =
     (if n < 10 then [char_of (48 + n)]
      else string_of_nat (n div 10) @ [char_of (48 + n mod 10)])"

text \<open>The message of line 189; the rendering of \<open>rows\<close> by \<open>%+v\<close> is left out.\<close>

definition rowErrorMsg :: "nat \<Rightarrow> string" where
  "rowErrorMsg cnt = ''unable to persist betch because an error on row '' @ string_of_nat cnt"

text \<open>
  \<open>persistBatchFn\<close>: the calls on the pool are added to the trace, the result is the
  returned error. After a successful \<open>Begin\<close> the variable \<open>err\<close> is \<open>nil\<close>, and it is
  \<open>err\<close>, not \<open>qerr\<close>, that line 189 wraps.
\<close>

definition persistBatchFn :: "tx_reply \<Rightarrow> pg_call list \<Rightarrow> batch \<Rightarrow> pg_call list \<times> error option" where
  "persistBatchFn rp tr b =
     (if length b = 0 then (tr, None)
      else (case begin_err rp of
          Some e \<Rightarrow> (tr @ [Begin (Some e)], errors_Wrap (Some e) ''unable to persist batch'')
        | None \<Rightarrow>
            (let err = None;
                 tr1 = tr @ [Begin None, SendBatch b];
                 (cnt, qerr, tr2) = queryLoop (results rp) 0 tr1
             in if qerr \<noteq> noQueryResult then (tr2, errors_Wrap err (rowErrorMsg cnt))
                else (tr2 @ [Commit (commit_err rp)], commit_err rp))))"

section \<open>The persister\<close>

text \<open>
  The inner type switch over one attribute, the \<open>range\<close> loop over \<open>Attr\<close>, and the
  outer type switch over the received object. \<open>isId\<close> is the method
  \<open>IsHostIdentified\<close> of \<open>models.HostInfo\<close>, which is outside the two source files.
\<close>

fun persistAttr :: "batch \<Rightarrow> attribute \<Rightarrow> batch" where
  "persistAttr b (BeaconStatusStamped bstatus) = batchQueryFn b (UpsertEthereumNodeStatus bstatus)"
| "persistAttr b (BeaconMetadataStamped bmetadata) = batchQueryFn b (UpsertEthereumNodeMetadata bmetadata)"
| "persistAttr b (EnrNode enrNode) = batchQueryFn b (UpsertEnrInfo enrNode)"
| "persistAttr b (OtherAttr t) = b"

fun persistAttrs :: "batch \<Rightarrow> (string \<times> attribute) list \<Rightarrow> batch" where
  "persistAttrs b [] = b"
| "persistAttrs b ((attName, att) # rest) = persistAttrs (persistAttr b att) rest"

fun persistObj :: "(HostInfo \<Rightarrow> bool) \<Rightarrow> batch \<Rightarrow> obj \<Rightarrow> batch" where
  "persistObj isId b (HostInfoPtr hostInfo) =
     (let b1 = batchQueryFn b (UpsertHostInfo hostInfo);
          b2 = (if isId hostInfo then batchQueryFn b1 (UpdatePeerInfo (HostPeerInfo hostInfo)) else b1)
      in persistAttrs b2 (Attr hostInfo))"
| "persistObj isId b (PeerInfoPtr peerInfo) = batchQueryFn b (UpdatePeerInfo peerInfo)"
| "persistObj isId b (ConnectionAttemptPtr connAttempt) = batchQueryFn b (UpdateConnAttempt connAttempt)"
| "persistObj isId b (ConnEventPtr connEvent) =
     (let b1 = batchQueryFn b (InsertNewConnEvent connEvent)
      in batchQueryFn b1 (UpdateLastActivityTimestamp (PeerID connEvent) (DiscTime connEvent)))"
| "persistObj isId b (IpInfoVal ipInfo) = batchQueryFn b (UpsertIpInfo ipInfo)"
| "persistObj isId b (OtherObj t) = b"

text \<open>
  The state of the goroutine of \<open>launchPersister\<close> and of what it shares: the flag
  \<open>readyToFinish\<close>, the open batch, the buffered channel \<open>persistC\<close> (first element
  received first), the calls made on the pool, the errors given to \<open>log.Error\<close>, and
  \<open>stopped\<close>, true once the loop was left (and \<open>wg.Done\<close> ran).
\<close>

record persister =
  readyToFinish :: bool
  openBatch :: batch
  persistC :: "obj list"
  pool :: "pg_call list"
  logged :: "error list"
  stopped :: bool

definition logError :: "error option \<Rightarrow> error list \<Rightarrow> error list" where
  "logError err lg = (case err of None \<Rightarrow> lg | Some e \<Rightarrow> lg @ [e])"

datatype select_case = Recv | Tick

text \<open>
  One run of the program is a schedule: \<open>PersistToDB x\<close> is a producer's send, and
  \<open>Iter sig sel rp\<close> is one iteration of \<open>persistingLoop\<close>, where \<open>sig\<close> says whether
  \<open>ctx.Done()\<close> or \<open>doneC\<close> is ready in the first \<open>select\<close>, \<open>sel\<close> which case of the
  second \<open>select\<close> is taken when both are ready, and \<open>rp\<close> how the store answers if this
  iteration flushes. The second \<open>select\<close> has no default: with nothing in \<open>persistC\<close> it
  waits for the ticker. The capacity of the channel (a full channel blocks the producer)
  is not modelled.
\<close>

datatype event = PersistToDB obj | Iter bool select_case tx_reply

definition flushBatch :: "tx_reply \<Rightarrow> batch \<Rightarrow> persister \<Rightarrow> persister" where
  "flushBatch rp b s =
     (let (tr, err) = persistBatchFn rp (pool s) b
      in s\<lparr>openBatch := [], pool := tr, logged := logError err (logged s)\<rparr>)"

definition iteration :: "(HostInfo \<Rightarrow> bool) \<Rightarrow> bool \<Rightarrow> select_case \<Rightarrow> tx_reply \<Rightarrow> persister \<Rightarrow> persister" where
  "iteration isId sig sel rp s =
     (if readyToFinish s \<and> length (persistC s) = 0 then s\<lparr>stopped := True\<rparr>
      else
        (let s1 = (if sig then s\<lparr>readyToFinish := True\<rparr> else s)
         in case (sel, persistC s1) of
              (Recv, x # rest) \<Rightarrow>
                (let b = persistObj isId (openBatch s1) x;
                     s2 = s1\<lparr>persistC := rest, openBatch := b\<rparr>
                 in if isReadyToPersistFn b then flushBatch rp b s2 else s2)
            | _ \<Rightarrow> flushBatch rp (openBatch s1) s1))"

fun step :: "(HostInfo \<Rightarrow> bool) \<Rightarrow> event \<Rightarrow> persister \<Rightarrow> persister" where
  "step isId (PersistToDB x) s = s\<lparr>persistC := persistC s @ [x]\<rparr>"
| "step isId (Iter sig sel rp) s = (if stopped s then s else iteration isId sig sel rp s)"

fun run :: "(HostInfo \<Rightarrow> bool) \<Rightarrow> event list \<Rightarrow> persister \<Rightarrow> persister" where
  "run isId [] s = s"
| "run isId (e # es) s = run isId es (step isId e s)"

text \<open>
  The goroutine as \<open>launchPersister\<close> starts it: an empty batch, \<open>readyToFinish\<close> false.
  \<open>tr\<close> holds the calls made on the pool so far.
\<close>

definition launchPersister :: "pg_call list \<Rightarrow> persister" where
  "launchPersister tr =
     \<lparr>readyToFinish = False, openBatch = [], persistC = [], pool = tr, logged = [], stopped = False\<rparr>"

text \<open>
  \<open>Close\<close>: the send on the unbuffered \<open>doneC\<close> is taken by the first \<open>select\<close> of one
  iteration, then \<open>wg.Wait()\<close> lasts until the loop is left, then the pool is closed.
  \<open>sched\<close> gives the iterations from the one that takes the send on; the result is
  \<open>None\<close> while the persister has not stopped, so that \<open>Close\<close> has not returned.
  An iteration that leaves the loop at its head does not reach the \<open>select\<close>, and a
  stopped persister runs none: there the send is never taken.
\<close>

fun Close :: "(HostInfo \<Rightarrow> bool) \<Rightarrow> (select_case \<times> tx_reply) list \<Rightarrow> persister \<Rightarrow> persister option" where
  "Close isId [] s = None"
| "Close isId ((sel, rp) # sched) s =
     (if stopped s \<or> (readyToFinish s \<and> length (persistC s) = 0) then None
      else
        (let s' = run isId (Iter True sel rp # map (\<lambda>(sel', rp'). Iter False sel' rp') sched) s
         in if stopped s' then Some (s'\<lparr>pool := pool s' @ [ClosePool]\<rparr>) else None))"

text \<open>The batches handed to \<open>tx.SendBatch\<close>, in order.\<close>

fun sentBatches :: "pg_call list \<Rightarrow> batch list" where
  "sentBatches [] = []"
| "sentBatches (SendBatch b # tr) = b # sentBatches tr"
| "sentBatches (c # tr) = sentBatches tr"

section \<open>The constructor\<close>

text \<open>
  \<open>db_env\<close> says how the store answers the constructor: the outcome of
  \<open>pgxpool.Connect\<close>, of \<open>Ping\<close>, and of the initialisation of each table (the
  \<open>Init...Table\<close> methods are outside the two source files).
\<close>

record db_env =
  connect_err :: "error option"
  ping_err :: "error option"
  init_err :: "string \<Rightarrow> error option"

record DBClient =
  Network :: string
  loginStr :: string

text \<open>
  What a call of \<open>NewDBClient\<close> leaves: the returned pair, the calls made on the store,
  and the persister goroutine if \<open>go dbClient.launchPersister()\<close> was reached.
\<close>

record new_result =
  client :: "DBClient option"
  err :: "error option"
  calls :: "pg_call list"
  worker :: "persister option"

fun initTablesFrom :: "(string \<Rightarrow> error option) \<Rightarrow> (string \<times> string) list \<Rightarrow> pg_call list \<Rightarrow> pg_call list \<times> error option" where
  "initTablesFrom ie [] tr = (tr, None)"
| "initTablesFrom ie ((tbl, msg) # rest) tr =
     (case ie tbl of
        Some e \<Rightarrow> (tr @ [InitTable tbl (Some e)], errors_Wrap (Some e) msg)
      | None \<Rightarrow> initTablesFrom ie rest (tr @ [InitTable tbl None]))"

definition initTables :: "(string \<Rightarrow> error option) \<Rightarrow> pg_call list \<Rightarrow> pg_call list \<times> error option" where
  "initTables ie tr =
     initTablesFrom ie
       [(''peer_info'', ''initializing peer_info table''),
        (''conn_event'', ''initializing conn_events table''),
        (''ip'', ''initializing ips table''),
        (''eth_nodes'', ''initializing eth_nodes table''),
        (''eth_status'', ''initializing eth_status table'')] tr"

definition NewDBClient :: "db_env \<Rightarrow> string \<Rightarrow> string \<Rightarrow> bool \<Rightarrow> new_result" where
  "NewDBClient env p2pNetwork login initialized =
     (if length login = 0
      then \<lparr>client = None, err = errors_New ''empty db-endpoint provided'', calls = [], worker = None\<rparr>
      else (case connect_err env of
          Some e \<Rightarrow> \<lparr>client = None, err = Some e, calls = [Connect login (Some e)], worker = None\<rparr>
        | None \<Rightarrow>
           (case ping_err env of
              Some e \<Rightarrow> \<lparr>client = None, err = errors_Wrap (Some e) ''unable to ping db'',
                         calls = [Connect login None, Ping (Some e)], worker = None\<rparr>
            | None \<Rightarrow>
               (let tr = [Connect login None, Ping None];
                    dbClient = \<lparr>Network = p2pNetwork, loginStr = login\<rparr>;
                    (tr', ierr) = (if initialized then initTables (init_err env) tr else (tr, None))
                in if ierr \<noteq> None
                   then \<lparr>client = None,
                         err = errors_Wrap ierr (''unable to initialize the SQL tables at '' @ login),
                         calls = tr', worker = None\<rparr>
                   else \<lparr>client = Some dbClient, err = None, calls = tr',
                         worker = Some (launchPersister tr')\<rparr>))))"

section \<open>Peer metrics\<close>

text \<open>
  \<open>metrics.Peer\<close>: \<open>uint64\<close> is a 64-bit word, \<open>time.Time\<close> an integer (0 for the zero
  time), a pointer \<open>*MessageMetric\<close> an option (\<open>None\<close> for \<open>nil\<close>), and the map
  \<open>MessageMetrics\<close> an option too, \<open>None\<close> for the \<open>nil\<close> map of a \<open>Peer\<close> that
  \<open>NewPeer\<close> did not build. The fields \<open>Latency\<close> (a float), \<open>BeaconStatus\<close> and
  \<open>BeaconMetadata\<close> are left out: no method modelled here reads or writes them.
\<close>

type_synonym u64 = "64 word"

record MessageMetric =
  Count :: u64
  FirstMessageTime :: int
  LastMessageTime :: int

type_synonym metrics_map = "(string \<Rightarrow> MessageMetric option option) option"

record Peer =
  PeerId :: string
  NodeId :: string
  UserAgent :: string
  ClientName :: string
  ClientOS :: string
  ClientVersion :: string
  Pubkey :: string
  Addrs :: string
  Ip :: string
  Country :: string
  City :: string
  ConnectedDirection :: string
  IsConnected :: bool
  Attempted :: bool
  Succeed :: bool
  Attempts :: u64
  Error :: string
  ConnectionTimes :: "int list"
  DisconnectionTimes :: "int list"
  MetadataRequest :: bool
  MetadataSucceed :: bool
  LastExport :: "64 word"
  MessageMetrics :: metrics_map

definition NewPeer :: "string \<Rightarrow> Peer" where
  "NewPeer peerId =
     \<lparr>PeerId = peerId, NodeId = [], UserAgent = [], ClientName = [], ClientOS = [],
      ClientVersion = [], Pubkey = [], Addrs = [], Ip = [], Country = [], City = [],
      ConnectedDirection = [], IsConnected = False, Attempted = False, Succeed = False,
      Attempts = 0, Error = ''None'', ConnectionTimes = [], DisconnectionTimes = [],
      MetadataRequest = False, MetadataSucceed = False, LastExport = 0,
      MessageMetrics = Some (\<lambda>k. None)\<rparr>"

definition ResetDynamicMetrics :: "Peer \<Rightarrow> Peer" where
  "ResetDynamicMetrics pm = pm\<lparr>Attempts := 0, MessageMetrics := Some (\<lambda>k. None)\<rparr>"

text \<open>
  \<open>filterError\<close> is \<open>utils.FilterError\<close> and \<open>shortToFull\<close> is
  \<open>utils.ShortToFullTopicName\<close>; package \<open>utils\<close> is outside the two source files.
\<close>

definition ConnectionAttemptEvent :: "(string \<Rightarrow> string) \<Rightarrow> bool \<Rightarrow> string \<Rightarrow> Peer \<Rightarrow> Peer" where
  "ConnectionAttemptEvent filterError succeed e pm =
     (let pm1 = pm\<lparr>Attempts := Attempts pm + 1\<rparr>;
          pm2 = (if \<not> Attempted pm1 then pm1\<lparr>Attempted := True\<rparr> else pm1)
      in if succeed then pm2\<lparr>Succeed := True, Error := ''None''\<rparr>
         else pm2\<lparr>Error := filterError e\<rparr>)"

text \<open>
  Indexing a Go map: the zero value (\<open>nil\<close>) for a missing key, also on a \<open>nil\<close> map.
\<close>

definition mapIndex :: "metrics_map \<Rightarrow> string \<Rightarrow> MessageMetric option" where
  "mapIndex m k = (case m of None \<Rightarrow> None | Some f \<Rightarrow> (case f k of None \<Rightarrow> None | Some p \<Rightarrow> p))"

datatype panic = AssignmentToNilMap

text \<open>
  \<open>MessageEvent\<close>: a first message on a topic stores a new metric, which panics on a
  \<open>nil\<close> map; after that the entry is not \<open>nil\<close> and is updated through the pointer.
\<close>

definition MessageEvent :: "string \<Rightarrow> int \<Rightarrow> Peer \<Rightarrow> panic + Peer" where
  "MessageEvent topicName t pm =
     (case mapIndex (MessageMetrics pm) topicName of
        None \<Rightarrow>
          (case MessageMetrics pm of
             None \<Rightarrow> Inl AssignmentToNilMap
           | Some f \<Rightarrow>
               Inr (pm\<lparr>MessageMetrics :=
                 Some (f(topicName \<mapsto> Some \<lparr>Count = 0 + 1, FirstMessageTime = t, LastMessageTime = t\<rparr>))\<rparr>))
      | Some m \<Rightarrow>
          (case MessageMetrics pm of
             None \<Rightarrow> Inl AssignmentToNilMap
           | Some f \<Rightarrow>
               Inr (pm\<lparr>MessageMetrics :=
                 Some (f(topicName \<mapsto> Some (m\<lparr>LastMessageTime := t, Count := Count m + 1\<rparr>)))\<rparr>)))"

fun MessageEvents :: "(string \<times> int) list \<Rightarrow> Peer \<Rightarrow> panic + Peer" where
  "MessageEvents [] pm = Inr pm"
| "MessageEvents ((topicName, t) # rest) pm =
     (case MessageEvent topicName t pm of Inl p \<Rightarrow> Inl p | Inr pm' \<Rightarrow> MessageEvents rest pm')"

definition GetNumOfMsgFromTopic :: "(string \<Rightarrow> string) \<Rightarrow> Peer \<Rightarrow> string \<Rightarrow> u64" where
  "GetNumOfMsgFromTopic shortToFull pm shortTopic =
     (let msgMetric = mapIndex (MessageMetrics pm) (shortToFull shortTopic)
      in case msgMetric of Some m \<Rightarrow> Count m | None \<Rightarrow> 0)"

section \<open>Vocabulary of the properties\<close>

text \<open>
  The attribute variants that the mapping table calls recognized:
  \<open>BeaconStatusStamped\<close>, \<open>BeaconMetadataStamped\<close> and \<open>EnrNode\<close>.
\<close>

fun recognizedAttr :: "attribute \<Rightarrow> bool" where
  "recognizedAttr (OtherAttr t) = False"
| "recognizedAttr a = True"

text \<open>Sample values for the concrete runs below.\<close>

abbreviation ip0 :: IpInfo where
  "ip0 \<equiv> \<lparr>IpAddr = ''10.0.0.1'', IpCountry = ''ES''\<rparr>"

abbreviation ce0 :: ConnEvent where
  "ce0 \<equiv> \<lparr>PeerID = ''16Uiu2'', ConnTime = 10, DiscTime = 25\<rparr>"

abbreviation host0 :: HostInfo where
  "host0 \<equiv> \<lparr>ID = ''16Uiu2'', IP = ''10.0.0.1'',
            HostPeerInfo = \<lparr>RemotePeer = ''16Uiu2'', PeerUserAgent = ''lighthouse''\<rparr>,
            Attr = [(''enr'', EnrNode \<lparr>EnrID = ''n1'', EnrSeq = 3\<rparr>),
                    (''score'', OtherAttr ''int''),
                    (''status'', BeaconStatusStamped \<lparr>StatusTimestamp = 40, StatusContent = ''head''\<rparr>)]\<rparr>"

abbreviation host1 :: HostInfo where
  "host1 \<equiv> \<lparr>ID = ''16Uiu3'', IP = [],
            HostPeerInfo = \<lparr>RemotePeer = ''16Uiu3'', PeerUserAgent = []\<rparr>,
            Attr = [(''metadata'', BeaconMetadataStamped \<lparr>MetadataTimestamp = 41, MetadataContent = ''seq 1''\<rparr>)]\<rparr>"

abbreviation rp_ok :: "nat \<Rightarrow> tx_reply" where
  "rp_ok n \<equiv> \<lparr>begin_err = None, results = replicate n None, commit_err = None\<rparr>"

abbreviation rp_begin_fails :: tx_reply where
  "rp_begin_fails \<equiv> \<lparr>begin_err = Some ''too many clients'', results = [], commit_err = None\<rparr>"

abbreviation rp_commit_fails :: tx_reply where
  "rp_commit_fails \<equiv> \<lparr>begin_err = None, results = [None], commit_err = Some ''tx aborted''\<rparr>"

abbreviation rp_query_fails :: tx_reply where
  "rp_query_fails \<equiv> \<lparr>begin_err = None, results = [Some ''connection reset''], commit_err = None\<rparr>"

abbreviation env_ok :: db_env where
  "env_ok \<equiv> \<lparr>connect_err = None, ping_err = None, init_err = (\<lambda>t. None)\<rparr>"

abbreviation env_no_connect :: db_env where
  "env_no_connect \<equiv> \<lparr>connect_err = Some ''refused'', ping_err = None, init_err = (\<lambda>t. None)\<rparr>"

abbreviation env_no_ping :: db_env where
  "env_no_ping \<equiv> \<lparr>connect_err = None, ping_err = Some ''timeout'', init_err = (\<lambda>t. None)\<rparr>"

section \<open>The mapper appends\<close>

lemma persistAttr_append: "persistAttr b a = b @ persistAttr [] a"
  by (cases a) (simp_all add: batchQueryFn_def)

lemma persistAttr_length: "length (persistAttr [] a) = (if recognizedAttr a then 1 else 0)"
  by (cases a) (simp_all add: batchQueryFn_def)

lemma persistAttr_no_peer_info: "UpdatePeerInfo p \<notin> set (persistAttr [] a)"
  by (cases a) (simp_all add: batchQueryFn_def)

lemma persistAttrs_append:
  "persistAttrs b as = b @ concat (map (\<lambda>na. persistAttr [] (snd na)) as)"
proof (induction as arbitrary: b)
  case Nil
  show ?case by simp
next
  case (Cons na as)
  obtain n a where na: "na = (n, a)" by (cases na)
  have "persistAttrs b (na # as) = persistAttrs (persistAttr b a) as"
    by (simp add: na)
  also have "\<dots> = persistAttr b a @ concat (map (\<lambda>na. persistAttr [] (snd na)) as)"
    by (rule Cons.IH)
  also have "\<dots> = b @ concat (map (\<lambda>na. persistAttr [] (snd na)) (na # as))"
    using persistAttr_append [of b a] by (simp add: na)
  finally show ?case .
qed

lemma length_concat_attrs:
  "length (concat (map (\<lambda>na. persistAttr [] (snd na)) as)) = length (filter recognizedAttr (map snd as))"
  by (induction as) (simp_all add: persistAttr_length)

lemma persistObj_append: "persistObj isId b x = b @ persistObj isId [] x"
proof (cases x)
  case (HostInfoPtr h)
  show ?thesis
    unfolding HostInfoPtr persistObj.simps Let_def batchQueryFn_def
    by (simp add: persistAttrs_append [of "_ @ _"] persistAttrs_append [of "[_]"]
          persistAttrs_append [of "[_, _]"])
qed (simp_all add: batchQueryFn_def)

section \<open>The executor and the loop\<close>

lemma persistBatchFn_empty: "persistBatchFn rp tr [] = (tr, None)"
  by (simp add: persistBatchFn_def)

lemma sentBatches_append: "sentBatches (xs @ ys) = sentBatches xs @ sentBatches ys"
  by (induction xs rule: sentBatches.induct) simp_all

lemma queryLoop_trace:
  "queryLoop rs cnt tr = (c, e, tr2) \<Longrightarrow> sentBatches tr2 = sentBatches tr \<and> length tr \<le> length tr2"
proof (induction rs cnt tr rule: queryLoop.induct)
  case (1 cnt tr)
  then show ?case by (auto simp: sentBatches_append)
next
  case (2 rs cnt tr)
  then show ?case by (auto simp: sentBatches_append)
next
  case (3 e' rs cnt tr)
  then show ?case by (auto simp: sentBatches_append)
qed

text \<open>One call of \<open>persistBatchFn\<close> hands the batch to the store at most once.\<close>

lemma persistBatchFn_sent:
  "sentBatches (fst (persistBatchFn rp tr b)) =
     sentBatches tr @ (if b \<noteq> [] \<and> begin_err rp = None then [b] else [])"
proof (cases "b = []")
  case True
  then show ?thesis by (simp add: persistBatchFn_def)
next
  case False
  show ?thesis
  proof (cases "begin_err rp")
    case (Some e)
    with False show ?thesis by (simp add: persistBatchFn_def sentBatches_append)
  next
    case None
    obtain c e tr2 where q: "queryLoop (results rp) 0 (tr @ [Begin None, SendBatch b]) = (c, e, tr2)"
      by (cases "queryLoop (results rp) 0 (tr @ [Begin None, SendBatch b])") auto
    from queryLoop_trace [OF q] have "sentBatches tr2 = sentBatches tr @ [b]"
      by (simp add: sentBatches_append)
    with False None q show ?thesis
      by (simp add: persistBatchFn_def sentBatches_append)
  qed
qed

text \<open>
  What \<open>persistBatchFn\<close> returns after a successful \<open>Begin\<close>, by the error that ends
  the loop over the results: an error other than the sentinel leaves the transaction
  uncommitted and the returned error \<open>nil\<close>; the sentinel leads to \<open>Commit\<close>.
\<close>

lemma persistBatchFn_query_error:
  assumes "b \<noteq> []" and "begin_err rp = None"
    and "queryLoop (results rp) 0 (tr @ [Begin None, SendBatch b]) = (cnt, qerr, tr2)"
    and "qerr \<noteq> noQueryResult"
  shows "persistBatchFn rp tr b = (tr2, None)"
  using assms by (simp add: persistBatchFn_def errors_Wrap_def)

lemma persistBatchFn_sentinel:
  assumes "b \<noteq> []" and "begin_err rp = None"
    and "queryLoop (results rp) 0 (tr @ [Begin None, SendBatch b]) = (cnt, qerr, tr2)"
    and "qerr = noQueryResult"
  shows "persistBatchFn rp tr b = (tr2 @ [Commit (commit_err rp)], commit_err rp)"
  using assms by (simp add: persistBatchFn_def)

lemma flushBatch_fields:
  "openBatch (flushBatch rp b s) = []"
  "persistC (flushBatch rp b s) = persistC s"
  "readyToFinish (flushBatch rp b s) = readyToFinish s"
  "stopped (flushBatch rp b s) = stopped s"
  "pool (flushBatch rp b s) = fst (persistBatchFn rp (pool s) b)"
  "logged (flushBatch rp b s) = logError (snd (persistBatchFn rp (pool s) b)) (logged s)"
  by (simp_all add: flushBatch_def split: prod.splits)

lemma iteration_tick:
  assumes "\<not> (readyToFinish s \<and> persistC s = [])" and "sel = Tick \<or> persistC s = []"
  shows "openBatch (iteration isId sig sel rp s) = []"
    and "pool (iteration isId sig sel rp s) = fst (persistBatchFn rp (pool s) (openBatch s))"
    and "persistC (iteration isId sig sel rp s) = persistC s"
  using assms
  by (auto simp: iteration_def flushBatch_fields Let_def split: select_case.splits list.splits)

lemma iteration_recv:
  assumes "\<not> (readyToFinish s \<and> persistC s = [])" and "persistC s = x # rest"
  shows "persistC (iteration isId sig Recv rp s) = rest"
    and "isReadyToPersistFn (persistObj isId (openBatch s) x) \<Longrightarrow>
           openBatch (iteration isId sig Recv rp s) = [] \<and>
           pool (iteration isId sig Recv rp s) = fst (persistBatchFn rp (pool s) (persistObj isId (openBatch s) x))"
    and "\<not> isReadyToPersistFn (persistObj isId (openBatch s) x) \<Longrightarrow>
           openBatch (iteration isId sig Recv rp s) = persistObj isId (openBatch s) x \<and>
           pool (iteration isId sig Recv rp s) = pool s"
  using assms
  by (auto simp: iteration_def flushBatch_fields Let_def)

lemma iteration_exit:
  assumes "readyToFinish s \<and> persistC s = []"
  shows "iteration isId sig sel rp s = s\<lparr>stopped := True\<rparr>"
  using assms by (simp add: iteration_def)

lemma iteration_stopped_iff:
  "stopped (iteration isId sig sel rp s) = (stopped s \<or> (readyToFinish s \<and> persistC s = []))"
  by (auto simp: iteration_def flushBatch_fields Let_def split: select_case.splits list.splits)

lemma step_batch_bound:
  assumes "length (openBatch s) < batchSize"
  shows "length (openBatch (step isId e s)) < batchSize"
proof (cases e)
  case (PersistToDB x)
  with assms show ?thesis by simp
next
  case (Iter sig sel rp)
  have pos: "0 < batchSize" by (simp add: batchSize_def)
  show ?thesis
    using assms pos unfolding Iter
    by (auto simp: iteration_def flushBatch_fields Let_def isReadyToPersistFn_def
             split: select_case.splits list.splits)
qed

lemma run_batch_bound:
  "length (openBatch s) < batchSize \<Longrightarrow> length (openBatch (run isId es s)) < batchSize"
  by (induction es arbitrary: s) (simp_all add: step_batch_bound)

text \<open>
  The step that leaves the loop makes no call on the pool and keeps the open batch as it
  is: no path out of \<open>persistingLoop\<close> flushes.
\<close>

lemma exit_without_flush:
  assumes "\<not> stopped s" and "stopped (step isId e s)"
  shows "pool (step isId e s) = pool s \<and> openBatch (step isId e s) = openBatch s"
proof (cases e)
  case (PersistToDB x)
  with assms show ?thesis by simp
next
  case (Iter sig sel rp)
  with assms have "readyToFinish s \<and> persistC s = []"
    by (simp add: iteration_stopped_iff)
  then show ?thesis using assms unfolding Iter by (simp add: iteration_exit)
qed

lemma run_append: "run isId (es @ fs) s = run isId fs (run isId es s)"
  by (induction es arbitrary: s) simp_all

lemma run_PersistToDB: "run isId (map PersistToDB xs) s = s\<lparr>persistC := persistC s @ xs\<rparr>"
  by (induction xs arbitrary: s) simp_all

lemma run_recv_IpInfo:
  assumes "\<not> stopped s" and "\<not> readyToFinish s"
    and "length (openBatch s) + n < batchSize"
    and "persistC s = replicate n (IpInfoVal ip) @ rest"
  shows "run isId (replicate n (Iter False Recv rp)) s =
           s\<lparr>persistC := rest, openBatch := openBatch s @ replicate n (UpsertIpInfo ip)\<rparr>"
  using assms
proof (induction n arbitrary: s)
  case 0
  then show ?case by simp
next
  case (Suc n)
  let ?s1 = "s\<lparr>persistC := replicate n (IpInfoVal ip) @ rest,
                 openBatch := openBatch s @ [UpsertIpInfo ip]\<rparr>"
  have st: "step isId (Iter False Recv rp) s = ?s1"
    using Suc.prems
    by (simp add: iteration_def Let_def batchQueryFn_def isReadyToPersistFn_def)
  have ih: "run isId (replicate n (Iter False Recv rp)) ?s1 =
          ?s1\<lparr>persistC := rest, openBatch := openBatch ?s1 @ replicate n (UpsertIpInfo ip)\<rparr>"
    using Suc.prems by (intro Suc.IH) simp_all
  have "run isId (replicate (Suc n) (Iter False Recv rp)) s =
          run isId (replicate n (Iter False Recv rp)) (step isId (Iter False Recv rp) s)"
    by simp
  also have "\<dots> = run isId (replicate n (Iter False Recv rp)) ?s1"
    unfolding st ..
  also have "\<dots> = s\<lparr>persistC := rest, openBatch := openBatch s @ replicate (Suc n) (UpsertIpInfo ip)\<rparr>"
    unfolding ih by simp
  finally show ?case .
qed

section \<open>Topic counters\<close>

lemma MessageEvent_other:
  assumes "MessageEvent topicName t pm = Inr pm'" and "k \<noteq> topicName"
  shows "mapIndex (MessageMetrics pm') k = mapIndex (MessageMetrics pm) k"
  using assms
  by (auto simp: MessageEvent_def mapIndex_def split: option.splits)

lemma MessageEvents_other:
  assumes "MessageEvents evs pm = Inr pm'" and "k \<notin> fst ` set evs"
  shows "mapIndex (MessageMetrics pm') k = mapIndex (MessageMetrics pm) k"
  using assms
proof (induction evs arbitrary: pm)
  case Nil
  then show ?case by simp
next
  case (Cons ev evs)
  obtain n t where ev: "ev = (n, t)" by (cases ev)
  from Cons.prems obtain pm1 where s1: "MessageEvent n t pm = Inr pm1"
    and s2: "MessageEvents evs pm1 = Inr pm'"
    by (auto simp: ev split: sum.splits)
  from Cons.prems have "k \<noteq> n" and "k \<notin> fst ` set evs" by (auto simp: ev)
  with Cons.IH [OF s2] MessageEvent_other [OF s1] show ?case by simp
qed

section \<open>Shutdown\<close>

text \<open>
  Claim C1: once shutdown is signalled the persister drains the queue and commits the
  remaining batch, if it is not empty, before it stops, and \<open>Close\<close> returns only after
  that commit was attempted. The loop is left at its head without a flush
  (\<open>exit_without_flush\<close>). On the run below one connection event is queued and \<open>Close\<close>
  is called: the first iteration takes the signal and receives the event, the second
  leaves the loop, and \<open>Close\<close> returns with the two queries of the event still in the
  open batch; the only call ever made on the pool is closing it.
\<close>

theorem drain_exits_without_final_commit:
  "Close (\<lambda>h. False) [(Recv, rp_ok 2), (Recv, rp_ok 2)]
     ((launchPersister [])\<lparr>persistC := [ConnEventPtr ce0]\<rparr>)
   = Some \<lparr>readyToFinish = True,
           openBatch = [InsertNewConnEvent ce0, UpdateLastActivityTimestamp ''16Uiu2'' 25],
           persistC = [], pool = [ClosePool], logged = [], stopped = True\<rparr>"
  by (simp add: launchPersister_def iteration_def batchQueryFn_def isReadyToPersistFn_def
        batchSize_def Let_def)

section \<open>The size trigger\<close>

text \<open>
  Claim C2 says that the size trigger is evaluated after every appended query, so that
  the batch never holds more than 256 queries when a flush is attempted. The trigger is
  evaluated once per received object, after all its queries were appended: 255 address
  records followed by one connection event (two queries) lead to one flush, of a batch of
  257 queries.
\<close>

theorem batch_exceeds_bound_counterexample:
  "map length (sentBatches (pool (run (\<lambda>h. False)
      (map PersistToDB (replicate 255 (IpInfoVal ip0) @ [ConnEventPtr ce0])
       @ replicate 255 (Iter False Recv (rp_ok 1)) @ [Iter False Recv (rp_ok 257)])
      (launchPersister [])))) = [257]"
proof -
  let ?f = "\<lambda>h::HostInfo. False"
  let ?it = "Iter False Recv (rp_ok 1)"
  let ?last = "Iter False Recv (rp_ok 257)"
  let ?s0 = "launchPersister []"
  let ?s1 = "?s0\<lparr>persistC := replicate 255 (IpInfoVal ip0) @ [ConnEventPtr ce0]\<rparr>"
  let ?s2 = "?s1\<lparr>persistC := [ConnEventPtr ce0],
                  openBatch := openBatch ?s1 @ replicate 255 (UpsertIpInfo ip0)\<rparr>"
  have a: "run ?f (map PersistToDB (replicate 255 (IpInfoVal ip0) @ [ConnEventPtr ce0])) ?s0 = ?s1"
    unfolding run_PersistToDB by (simp add: launchPersister_def)
  have b: "run ?f (replicate 255 ?it) ?s1 = ?s2"
    by (rule run_recv_IpInfo) (simp_all add: launchPersister_def batchSize_def)
  have c: "map length (sentBatches (pool (step ?f ?last ?s2))) = [257]"
    by (simp add: launchPersister_def iteration_def Let_def batchQueryFn_def
          isReadyToPersistFn_def batchSize_def flushBatch_fields persistBatchFn_sent)
  show ?thesis
    unfolding run_append a b using c by simp
qed

text \<open>
  Claim C2, amended: the size trigger is evaluated once after each received object, when
  all the queries of that object have been appended. In every reachable state the open
  batch holds fewer than 256 queries, so an object is always received with fewer than
  256 queries pending; receiving \<open>x\<close> takes it out of the queue and appends its queries;
  the batch then holds fewer than 256 plus the number of queries of \<open>x\<close>; if it holds
  256 or more it is flushed in the same iteration, before the next object is received,
  and the open batch is empty afterwards; otherwise it is kept and the pool is not
  touched.
\<close>

theorem size_trigger_after_each_record:
  assumes "s = run isId es (launchPersister tr)" and "\<not> stopped s" and "persistC s = x # rest"
  shows "length (openBatch s) < batchSize
       \<and> persistC (step isId (Iter sig Recv rp) s) = rest
       \<and> length (persistObj isId (openBatch s) x) < batchSize + length (persistObj isId [] x)
       \<and> (if batchSize \<le> length (persistObj isId (openBatch s) x)
          then openBatch (step isId (Iter sig Recv rp) s) = []
             \<and> pool (step isId (Iter sig Recv rp) s) =
                 fst (persistBatchFn rp (pool s) (persistObj isId (openBatch s) x))
          else openBatch (step isId (Iter sig Recv rp) s) = persistObj isId (openBatch s) x
             \<and> pool (step isId (Iter sig Recv rp) s) = pool s)"
proof -
  have inv: "length (openBatch s) < batchSize"
    unfolding assms(1) by (rule run_batch_bound) (simp add: launchPersister_def batchSize_def)
  have ne: "\<not> (readyToFinish s \<and> persistC s = [])"
    using assms(3) by simp
  have len: "length (persistObj isId (openBatch s) x) < batchSize + length (persistObj isId [] x)"
    using inv persistObj_append [of isId "openBatch s" x] by simp
  show ?thesis
    using inv len assms(2) iteration_recv [OF ne assms(3), of isId sig rp]
    by (simp add: isReadyToPersistFn_def)
qed

theorem size_trigger_after_each_record_witness:
  "\<not> stopped (run (\<lambda>h. False) [PersistToDB (ConnEventPtr ce0)] (launchPersister []))
   \<and> persistC (run (\<lambda>h. False) [PersistToDB (ConnEventPtr ce0)] (launchPersister [])) = [ConnEventPtr ce0]
   \<and> length (openBatch (run (\<lambda>h. False) [PersistToDB (ConnEventPtr ce0)] (launchPersister []))) < batchSize
   \<and> openBatch (step (\<lambda>h. False) (Iter False Recv (rp_ok 2))
        (run (\<lambda>h. False) [PersistToDB (ConnEventPtr ce0)] (launchPersister [])))
       = [InsertNewConnEvent ce0, UpdateLastActivityTimestamp ''16Uiu2'' 25]
   \<and> pool (step (\<lambda>h. False) (Iter False Recv (rp_ok 2))
        (run (\<lambda>h. False) [PersistToDB (ConnEventPtr ce0)] (launchPersister []))) = []"
proof -
  let ?s = "run (\<lambda>h. False) [PersistToDB (ConnEventPtr ce0)] (launchPersister [])"
  have h2: "\<not> stopped ?s" by (simp add: launchPersister_def)
  have h3: "persistC ?s = ConnEventPtr ce0 # []" by (simp add: launchPersister_def)
  have small: "\<not> batchSize \<le> length (persistObj (\<lambda>h. False) (openBatch ?s) (ConnEventPtr ce0))"
    by (simp add: launchPersister_def batchQueryFn_def batchSize_def)
  have ev: "persistObj (\<lambda>h. False) (openBatch ?s) (ConnEventPtr ce0)
      = [InsertNewConnEvent ce0, UpdateLastActivityTimestamp ''16Uiu2'' 25]"
    by (simp add: launchPersister_def batchQueryFn_def)
  have pl: "pool ?s = []" by (simp add: launchPersister_def)
  from size_trigger_after_each_record [OF refl h2 h3, of False "rp_ok 2"] small
  have "length (openBatch ?s) < batchSize
     \<and> openBatch (step (\<lambda>h. False) (Iter False Recv (rp_ok 2)) ?s)
         = persistObj (\<lambda>h. False) (openBatch ?s) (ConnEventPtr ce0)
     \<and> pool (step (\<lambda>h. False) (Iter False Recv (rp_ok 2)) ?s) = pool ?s"
    by presburger
  with h2 h3 ev pl show ?thesis by simp
qed

section \<open>The transactional executor\<close>

text \<open>
  Claim C3: on a batch that is not empty, an error other than the sentinel
  \<open>no result\<close> during the iteration over the results makes the commit operation return
  a wrapped error that is not \<open>nil\<close>, without committing. Line 189 wraps \<open>err\<close>, which
  is \<open>nil\<close> after the successful \<open>Begin\<close>, where \<open>qerr\<close> holds the failure; wrapping
  \<open>nil\<close> gives \<open>nil\<close>. With one query in the batch and a store that answers the first
  \<open>Query()\<close> with \<open>connection reset\<close>, the transaction is not committed and the
  returned error is \<open>nil\<close> (in general: \<open>persistBatchFn_query_error\<close>).
\<close>

theorem query_error_returns_nil:
  "persistBatchFn rp_query_fails [] [UpsertIpInfo ip0]
   = ([Begin None, SendBatch [UpsertIpInfo ip0], Query (Some ''connection reset'')], None)"
  by (simp add: persistBatchFn_def errors_Wrap_def noQueryResult_def Let_def)

text \<open>
  Claim C7: the commit operation on an empty batch returns at once with no error and
  makes no call on the store: no transaction is opened, the calls made on the pool are
  the same before and after, whatever the store would have answered.
\<close>

theorem persistBatchFn_empty_batch:
  "persistBatchFn rp tr [] = (tr, None)"
  by (simp add: persistBatchFn_def)

section \<open>The mapper\<close>

text \<open>
  Claim C4: receiving a host record appends to the batch, in this order, the upsert of
  the host, the upsert of its peer record if and only if the host is identified, and one
  query for each attribute of a recognized variant, in the order in which the attributes
  are visited; that is 1, plus 1 if the host is identified, plus the number of recognized
  attributes. A status attribute appends the upsert of the node status, a metadata
  attribute the upsert of the node metadata, a node record the upsert of the node, and
  an attribute of another type appends nothing. So the first appended query is the
  upsert of the host, and an upsert of a peer record is among the appended queries if
  and only if the host is identified, and then it is that of the peer record of the
  host.
\<close>

theorem hostinfo_fanout:
  "persistObj isId b (HostInfoPtr h) =
     b @ [UpsertHostInfo h]
       @ (if isId h then [UpdatePeerInfo (HostPeerInfo h)] else [])
       @ concat (map (\<lambda>na. persistAttr [] (snd na)) (Attr h))
   \<and> length (persistObj isId b (HostInfoPtr h)) =
       length b + 1 + (if isId h then 1 else 0) + length (filter recognizedAttr (map snd (Attr h)))
   \<and> persistAttr b (OtherAttr t) = b
   \<and> length (persistAttr [] a) = (if recognizedAttr a then 1 else 0)
   \<and> persistAttr b (BeaconStatusStamped bstatus) = b @ [UpsertEthereumNodeStatus bstatus]
   \<and> persistAttr b (BeaconMetadataStamped bmetadata) = b @ [UpsertEthereumNodeMetadata bmetadata]
   \<and> persistAttr b (EnrNode enrNode) = b @ [UpsertEnrInfo enrNode]
   \<and> (UpdatePeerInfo p \<in> set (persistObj isId [] (HostInfoPtr h)) \<longleftrightarrow> isId h \<and> p = HostPeerInfo h)
   \<and> ((\<exists>q. UpdatePeerInfo q \<in> set (persistObj isId [] (HostInfoPtr h))) \<longleftrightarrow> isId h)
   \<and> hd (persistObj isId [] (HostInfoPtr h)) = UpsertHostInfo h"
proof -
  have eq: "\<And>b. persistObj isId b (HostInfoPtr h) =
     b @ [UpsertHostInfo h]
       @ (if isId h then [UpdatePeerInfo (HostPeerInfo h)] else [])
       @ concat (map (\<lambda>na. persistAttr [] (snd na)) (Attr h))"
    unfolding persistObj.simps Let_def batchQueryFn_def
    by (simp add: persistAttrs_append [of "_ @ _"])
  have len: "length (persistObj isId b (HostInfoPtr h)) =
       length b + 1 + (if isId h then 1 else 0) + length (filter recognizedAttr (map snd (Attr h)))"
    unfolding eq by (simp add: length_concat_attrs)
  have cases: "persistAttr b (BeaconStatusStamped bstatus) = b @ [UpsertEthereumNodeStatus bstatus]
   \<and> persistAttr b (BeaconMetadataStamped bmetadata) = b @ [UpsertEthereumNodeMetadata bmetadata]
   \<and> persistAttr b (EnrNode enrNode) = b @ [UpsertEnrInfo enrNode]
   \<and> persistAttr b (OtherAttr t) = b"
    by (simp add: batchQueryFn_def)
  have mem: "\<And>q. UpdatePeerInfo q \<in> set (persistObj isId [] (HostInfoPtr h)) \<longleftrightarrow> isId h \<and> q = HostPeerInfo h"
    unfolding eq by (auto simp: persistAttr_no_peer_info)
  have ex: "(\<exists>q. UpdatePeerInfo q \<in> set (persistObj isId [] (HostInfoPtr h))) \<longleftrightarrow> isId h"
    unfolding mem by simp
  have first: "hd (persistObj isId [] (HostInfoPtr h)) = UpsertHostInfo h"
    unfolding eq by simp
  from eq [of b] len cases mem [of p] ex first show ?thesis
    by (simp add: persistAttr_length)
qed

theorem hostinfo_fanout_witness:
  "persistObj (\<lambda>h. PeerUserAgent (HostPeerInfo h) \<noteq> []) [UpsertIpInfo ip0] (HostInfoPtr host0) =
     [UpsertIpInfo ip0, UpsertHostInfo host0, UpdatePeerInfo (HostPeerInfo host0),
      UpsertEnrInfo \<lparr>EnrID = ''n1'', EnrSeq = 3\<rparr>,
      UpsertEthereumNodeStatus \<lparr>StatusTimestamp = 40, StatusContent = ''head''\<rparr>]
   \<and> length (persistObj (\<lambda>h. PeerUserAgent (HostPeerInfo h) \<noteq> []) [UpsertIpInfo ip0] (HostInfoPtr host0))
       = 1 + 1 + 1 + 2
   \<and> UpdatePeerInfo (HostPeerInfo host0)
       \<in> set (persistObj (\<lambda>h. PeerUserAgent (HostPeerInfo h) \<noteq> []) [] (HostInfoPtr host0))
   \<and> persistObj (\<lambda>h. PeerUserAgent (HostPeerInfo h) \<noteq> []) [] (HostInfoPtr host1) =
       [UpsertHostInfo host1,
        UpsertEthereumNodeMetadata \<lparr>MetadataTimestamp = 41, MetadataContent = ''seq 1''\<rparr>]
   \<and> \<not> (\<exists>q. UpdatePeerInfo q
           \<in> set (persistObj (\<lambda>h. PeerUserAgent (HostPeerInfo h) \<noteq> []) [] (HostInfoPtr host1)))"
proof -
  note w0 = hostinfo_fanout [of "\<lambda>h. PeerUserAgent (HostPeerInfo h) \<noteq> []" "[UpsertIpInfo ip0]" host0
      "''int''" "OtherAttr ''int''" _ _ _ "HostPeerInfo host0"]
  note w1 = hostinfo_fanout [of "\<lambda>h. PeerUserAgent (HostPeerInfo h) \<noteq> []" "[]" host1
      "''int''" "OtherAttr ''int''" _ _ _ "HostPeerInfo host1"]
  have c0: "persistObj (\<lambda>h. PeerUserAgent (HostPeerInfo h) \<noteq> []) [UpsertIpInfo ip0] (HostInfoPtr host0) =
     [UpsertIpInfo ip0, UpsertHostInfo host0, UpdatePeerInfo (HostPeerInfo host0),
      UpsertEnrInfo \<lparr>EnrID = ''n1'', EnrSeq = 3\<rparr>,
      UpsertEthereumNodeStatus \<lparr>StatusTimestamp = 40, StatusContent = ''head''\<rparr>]
   \<and> length (persistObj (\<lambda>h. PeerUserAgent (HostPeerInfo h) \<noteq> []) [UpsertIpInfo ip0] (HostInfoPtr host0))
       = 1 + 1 + 1 + 2
   \<and> UpdatePeerInfo (HostPeerInfo host0)
       \<in> set (persistObj (\<lambda>h. PeerUserAgent (HostPeerInfo h) \<noteq> []) [] (HostInfoPtr host0))"
    using w0 by (simp add: batchQueryFn_def)
  have c1: "persistObj (\<lambda>h. PeerUserAgent (HostPeerInfo h) \<noteq> []) [] (HostInfoPtr host1) =
       [UpsertHostInfo host1,
        UpsertEthereumNodeMetadata \<lparr>MetadataTimestamp = 41, MetadataContent = ''seq 1''\<rparr>]
   \<and> \<not> (\<exists>q. UpdatePeerInfo q
           \<in> set (persistObj (\<lambda>h. PeerUserAgent (HostPeerInfo h) \<noteq> []) [] (HostInfoPtr host1)))"
    using w1 by (simp add: batchQueryFn_def)
  from c0 c1 show ?thesis by simp
qed

text \<open>
  Claim C5: receiving a connection event appends exactly two queries to the batch, in
  this order: the insert of the event, then the update of the last activity of the peer
  of the event with the disconnection time of the event.
\<close>

theorem connevent_two_queries:
  "persistObj isId b (ConnEventPtr ce) =
     b @ [InsertNewConnEvent ce, UpdateLastActivityTimestamp (PeerID ce) (DiscTime ce)]
   \<and> length (persistObj isId b (ConnEventPtr ce)) = length b + 2"
  by (simp add: batchQueryFn_def)

section \<open>Reset after a flush\<close>

text \<open>
  Claim C6: after every flush attempt the open batch is empty, whatever the store
  answered, and the queries of a failed flush are neither retried nor appended again.
  An iteration of a running persister that takes the ticker (or finds the queue empty)
  flushes the open batch; one that receives an object and finds the batch ready flushes
  the batch with the queries of that object. In both the open batch is empty afterwards
  and the calls on the pool are those of the one call of the commit operation, for every
  reply \<open>rp\<close> of the store; nothing goes back to the queue; and one call of the commit
  operation hands the batch to the store at most once.
\<close>

theorem flush_resets_batch:
  assumes "\<not> stopped s" and "\<not> (readyToFinish s \<and> persistC s = [])"
  shows "(sel = Tick \<or> persistC s = [] \<longrightarrow>
            openBatch (step isId (Iter sig sel rp) s) = []
          \<and> pool (step isId (Iter sig sel rp) s) = fst (persistBatchFn rp (pool s) (openBatch s))
          \<and> persistC (step isId (Iter sig sel rp) s) = persistC s)
       \<and> (sel = Recv \<and> persistC s \<noteq> []
            \<and> isReadyToPersistFn (persistObj isId (openBatch s) (hd (persistC s))) \<longrightarrow>
            openBatch (step isId (Iter sig sel rp) s) = []
          \<and> pool (step isId (Iter sig sel rp) s) =
              fst (persistBatchFn rp (pool s) (persistObj isId (openBatch s) (hd (persistC s))))
          \<and> persistC (step isId (Iter sig sel rp) s) = tl (persistC s))
       \<and> sentBatches (fst (persistBatchFn rp tr b)) =
           sentBatches tr @ (if b \<noteq> [] \<and> begin_err rp = None then [b] else [])"
proof -
  have tick: "sel = Tick \<or> persistC s = [] \<longrightarrow>
            openBatch (step isId (Iter sig sel rp) s) = []
          \<and> pool (step isId (Iter sig sel rp) s) = fst (persistBatchFn rp (pool s) (openBatch s))
          \<and> persistC (step isId (Iter sig sel rp) s) = persistC s"
    using assms iteration_tick [OF assms(2), of sel isId sig rp] by simp
  have size: "sel = Recv \<and> persistC s \<noteq> []
            \<and> isReadyToPersistFn (persistObj isId (openBatch s) (hd (persistC s))) \<longrightarrow>
            openBatch (step isId (Iter sig sel rp) s) = []
          \<and> pool (step isId (Iter sig sel rp) s) =
              fst (persistBatchFn rp (pool s) (persistObj isId (openBatch s) (hd (persistC s))))
          \<and> persistC (step isId (Iter sig sel rp) s) = tl (persistC s)"
  proof (cases "persistC s")
    case Nil
    then show ?thesis by simp
  next
    case (Cons x rest)
    from iteration_recv [OF assms(2) Cons, of isId sig rp] assms(1) Cons
    show ?thesis by simp
  qed
  from tick size persistBatchFn_sent [of rp tr b] show ?thesis by simp
qed

theorem flush_resets_batch_witness:
  "openBatch (step (\<lambda>h. False) (Iter False Tick rp_begin_fails)
       ((launchPersister [])\<lparr>openBatch := [UpsertIpInfo ip0]\<rparr>)) = []
   \<and> pool (step (\<lambda>h. False) (Iter False Tick rp_begin_fails)
       ((launchPersister [])\<lparr>openBatch := [UpsertIpInfo ip0]\<rparr>)) = [Begin (Some ''too many clients'')]
   \<and> openBatch (step (\<lambda>h. False) (Iter False Recv rp_commit_fails)
       ((launchPersister [])\<lparr>openBatch := replicate 255 (UpsertIpInfo ip0), persistC := [IpInfoVal ip0]\<rparr>)) = []
   \<and> sentBatches (pool (step (\<lambda>h. False) (Iter False Recv rp_commit_fails)
       ((launchPersister [])\<lparr>openBatch := replicate 255 (UpsertIpInfo ip0), persistC := [IpInfoVal ip0]\<rparr>)))
       = [replicate 255 (UpsertIpInfo ip0) @ [UpsertIpInfo ip0]]"
proof -
  let ?s1 = "(launchPersister [])\<lparr>openBatch := [UpsertIpInfo ip0]\<rparr>"
  let ?s2 = "(launchPersister [])\<lparr>openBatch := replicate 255 (UpsertIpInfo ip0), persistC := [IpInfoVal ip0]\<rparr>"
  have a1: "\<not> stopped ?s1" and a2: "\<not> (readyToFinish ?s1 \<and> persistC ?s1 = [])"
    by (simp_all add: launchPersister_def)
  have b1: "\<not> stopped ?s2" and b2: "\<not> (readyToFinish ?s2 \<and> persistC ?s2 = [])"
    by (simp_all add: launchPersister_def)
  have b3: "isReadyToPersistFn (persistObj (\<lambda>h. False) (openBatch ?s2) (hd (persistC ?s2)))"
    by (simp add: launchPersister_def isReadyToPersistFn_def batchQueryFn_def batchSize_def)
  have p1: "fst (persistBatchFn rp_begin_fails (pool ?s1) (openBatch ?s1)) = [Begin (Some ''too many clients'')]"
    by (simp add: launchPersister_def persistBatchFn_def)
  note w1 = flush_resets_batch [OF a1 a2, of Tick "\<lambda>h. False" False rp_begin_fails "[]" "[]"]
  note w2 = flush_resets_batch [OF b1 b2, of Recv "\<lambda>h. False" False rp_commit_fails
      "pool ?s2" "persistObj (\<lambda>h. False) (openBatch ?s2) (hd (persistC ?s2))"]
  have c1: "openBatch (step (\<lambda>h. False) (Iter False Tick rp_begin_fails) ?s1) = []
     \<and> pool (step (\<lambda>h. False) (Iter False Tick rp_begin_fails) ?s1) = [Begin (Some ''too many clients'')]"
    using w1 p1 by simp
  have c2: "openBatch (step (\<lambda>h. False) (Iter False Recv rp_commit_fails) ?s2) = []
     \<and> sentBatches (pool (step (\<lambda>h. False) (Iter False Recv rp_commit_fails) ?s2))
        = [replicate 255 (UpsertIpInfo ip0) @ [UpsertIpInfo ip0]]"
    using w2 b3 by (simp add: launchPersister_def batchQueryFn_def)
  from c1 c2 show ?thesis by simp
qed

section \<open>The constructor fails fast\<close>

text \<open>
  Claim C8: if the connection string is empty, or the connection cannot be established,
  or the ping fails, the constructor returns an error that is not \<open>nil\<close> and no client,
  and the persister is not started; with an empty connection string no call is made on
  the store at all.
\<close>

theorem NewDBClient_fails_fast:
  assumes "login = [] \<or> connect_err env \<noteq> None \<or> ping_err env \<noteq> None"
  shows "err (NewDBClient env net login ini) \<noteq> None
       \<and> client (NewDBClient env net login ini) = None
       \<and> worker (NewDBClient env net login ini) = None
       \<and> calls (NewDBClient env net [] ini) = []"
  using assms
  by (auto simp: NewDBClient_def errors_New_def errors_Wrap_def split: option.splits)

theorem NewDBClient_fails_fast_witness:
  "err (NewDBClient env_ok ''mainnet'' [] True) \<noteq> None
   \<and> worker (NewDBClient env_ok ''mainnet'' [] True) = None
   \<and> calls (NewDBClient env_ok ''mainnet'' [] True) = []
   \<and> err (NewDBClient env_no_connect ''mainnet'' ''postgres://db'' True) \<noteq> None
   \<and> worker (NewDBClient env_no_connect ''mainnet'' ''postgres://db'' True) = None
   \<and> err (NewDBClient env_no_ping ''mainnet'' ''postgres://db'' True) \<noteq> None
   \<and> worker (NewDBClient env_no_ping ''mainnet'' ''postgres://db'' True) = None"
  using NewDBClient_fails_fast [of "[]" env_ok "''mainnet''" True]
    NewDBClient_fails_fast [of "''postgres://db''" env_no_connect "''mainnet''" True]
    NewDBClient_fails_fast [of "''postgres://db''" env_no_ping "''mainnet''" True]
  by simp

section \<open>Connection attempts of a peer\<close>

text \<open>
  Claim C9 says that every call of \<open>ConnectionAttemptEvent\<close> increases \<open>Attempts\<close> by
  exactly 1. \<open>Attempts\<close> is a \<open>uint64\<close>: on a peer whose counter is at its largest
  value, 18446744073709551615, the call takes it to 0.
\<close>

theorem Attempts_wraps_counterexample:
  "unat (Attempts ((NewPeer ''p'')\<lparr>Attempts := 18446744073709551615\<rparr>)) = 18446744073709551615
   \<and> unat (Attempts (ConnectionAttemptEvent (\<lambda>e. e) True []
        ((NewPeer ''p'')\<lparr>Attempts := 18446744073709551615\<rparr>))) = 0"
  by (simp add: ConnectionAttemptEvent_def NewPeer_def Let_def)

text \<open>
  Claim C9, amended: every call of \<open>ConnectionAttemptEvent\<close> adds 1 to \<open>Attempts\<close>
  modulo \<open>2 ^ 64\<close>, which is an increase by exactly 1 unless the counter was at its
  largest value, and \<open>Attempted\<close> is true afterwards; if \<open>succeed\<close> is true then
  \<open>Succeed\<close> is set and \<open>Error\<close> is \<open>None\<close>, otherwise \<open>Error\<close> is the filtered error
  string and \<open>Succeed\<close> is unchanged.
\<close>

theorem ConnectionAttemptEvent_effect:
  "Attempts (ConnectionAttemptEvent filterError succeed e pm) = Attempts pm + 1
   \<and> unat (Attempts (ConnectionAttemptEvent filterError succeed e pm)) = (unat (Attempts pm) + 1) mod 2 ^ 64
   \<and> (unat (Attempts pm) < 2 ^ 64 - 1 \<longrightarrow>
        unat (Attempts (ConnectionAttemptEvent filterError succeed e pm)) = unat (Attempts pm) + 1)
   \<and> Attempted (ConnectionAttemptEvent filterError succeed e pm)
   \<and> (succeed \<longrightarrow> Succeed (ConnectionAttemptEvent filterError succeed e pm)
                   \<and> Error (ConnectionAttemptEvent filterError succeed e pm) = ''None'')
   \<and> (\<not> succeed \<longrightarrow> Error (ConnectionAttemptEvent filterError succeed e pm) = filterError e
                   \<and> Succeed (ConnectionAttemptEvent filterError succeed e pm) = Succeed pm)"
proof -
  have a: "Attempts (ConnectionAttemptEvent filterError succeed e pm) = Attempts pm + 1"
    by (simp add: ConnectionAttemptEvent_def Let_def)
  have m: "unat (Attempts pm + 1) = (unat (Attempts pm) + 1) mod 2 ^ 64"
    by (simp add: unat_word_ariths)
  have rest: "Attempted (ConnectionAttemptEvent filterError succeed e pm)
   \<and> (succeed \<longrightarrow> Succeed (ConnectionAttemptEvent filterError succeed e pm)
                   \<and> Error (ConnectionAttemptEvent filterError succeed e pm) = ''None'')
   \<and> (\<not> succeed \<longrightarrow> Error (ConnectionAttemptEvent filterError succeed e pm) = filterError e
                   \<and> Succeed (ConnectionAttemptEvent filterError succeed e pm) = Succeed pm)"
    by (simp add: ConnectionAttemptEvent_def Let_def)
  from a m rest show ?thesis by simp
qed

theorem ConnectionAttemptEvent_effect_witness:
  "unat (Attempts (NewPeer ''p'')) < 2 ^ 64 - 1
   \<and> unat (Attempts (ConnectionAttemptEvent (\<lambda>e. ''filtered'') True ''x'' (NewPeer ''p''))) = 1
   \<and> Attempted (ConnectionAttemptEvent (\<lambda>e. ''filtered'') True ''x'' (NewPeer ''p''))
   \<and> Succeed (ConnectionAttemptEvent (\<lambda>e. ''filtered'') True ''x'' (NewPeer ''p''))
   \<and> Error (ConnectionAttemptEvent (\<lambda>e. ''filtered'') True ''x'' (NewPeer ''p'')) = ''None''
   \<and> Error (ConnectionAttemptEvent (\<lambda>e. ''filtered'') False ''dial backoff'' (NewPeer ''p'')) = ''filtered''
   \<and> \<not> Succeed (ConnectionAttemptEvent (\<lambda>e. ''filtered'') False ''dial backoff'' (NewPeer ''p''))"
proof -
  have z: "Attempts (NewPeer ''p'') = 0" and ns: "\<not> Succeed (NewPeer ''p'')"
    by (simp_all add: NewPeer_def)
  from ConnectionAttemptEvent_effect [of "\<lambda>e. ''filtered''" True "''x''" "NewPeer ''p''"]
       ConnectionAttemptEvent_effect [of "\<lambda>e. ''filtered''" False "''dial backoff''" "NewPeer ''p''"]
       z ns
  show ?thesis by simp
qed

section \<open>Messages of a topic\<close>

text \<open>
  Claim C10: for a topic on which no message was recorded, \<open>GetNumOfMsgFromTopic\<close>
  returns 0; the lookup of the missing entry is safe. If the map of the peer \<open>pm0\<close> has
  no entry for the full name of the topic (the entry is missing or \<open>nil\<close>, or the map
  itself is \<open>nil\<close>), and \<open>pm\<close> comes from \<open>pm0\<close> by messages recorded on other topics
  only, the count of the topic in \<open>pm\<close> is 0.
\<close>

theorem GetNumOfMsgFromTopic_unrecorded:
  assumes "mapIndex (MessageMetrics pm0) (shortToFull t) = None"
    and "MessageEvents evs pm0 = Inr pm"
    and "shortToFull t \<notin> fst ` set evs"
  shows "GetNumOfMsgFromTopic shortToFull pm t = 0"
  using MessageEvents_other [OF assms(2,3)] assms(1)
  by (simp add: GetNumOfMsgFromTopic_def)

theorem GetNumOfMsgFromTopic_unrecorded_witness:
  "mapIndex (MessageMetrics (NewPeer ''p'')) (''/eth2/'' @ ''VoluntaryExit'') = None
   \<and> MessageEvents [(''/eth2/BeaconBlock'', 7)] (NewPeer ''p'') =
       Inr ((NewPeer ''p'')\<lparr>MessageMetrics := Some ((\<lambda>k. None)(''/eth2/BeaconBlock'' \<mapsto>
              Some \<lparr>Count = 1, FirstMessageTime = 7, LastMessageTime = 7\<rparr>))\<rparr>)
   \<and> ''/eth2/'' @ ''VoluntaryExit'' \<notin> fst ` set [(''/eth2/BeaconBlock'', 7::int)]
   \<and> GetNumOfMsgFromTopic (\<lambda>s. ''/eth2/'' @ s)
        ((NewPeer ''p'')\<lparr>MessageMetrics := Some ((\<lambda>k. None)(''/eth2/BeaconBlock'' \<mapsto>
              Some \<lparr>Count = 1, FirstMessageTime = 7, LastMessageTime = 7\<rparr>))\<rparr>) ''VoluntaryExit'' = 0"
proof -
  let ?pm = "(NewPeer ''p'')\<lparr>MessageMetrics := Some ((\<lambda>k. None)(''/eth2/BeaconBlock'' \<mapsto>
              Some \<lparr>Count = 1, FirstMessageTime = 7, LastMessageTime = 7\<rparr>))\<rparr>"
  have h1: "mapIndex (MessageMetrics (NewPeer ''p'')) ((\<lambda>s. ''/eth2/'' @ s) ''VoluntaryExit'') = None"
    by (simp add: NewPeer_def mapIndex_def)
  have h2: "MessageEvents [(''/eth2/BeaconBlock'', 7)] (NewPeer ''p'') = Inr ?pm"
    by (simp add: MessageEvent_def NewPeer_def mapIndex_def)
  have h3: "(\<lambda>s. ''/eth2/'' @ s) ''VoluntaryExit'' \<notin> fst ` set [(''/eth2/BeaconBlock'', 7::int)]"
    by simp
  from GetNumOfMsgFromTopic_unrecorded
         [of "NewPeer ''p''" "\<lambda>s. ''/eth2/'' @ s" "''VoluntaryExit''" "[(''/eth2/BeaconBlock'', 7)]" ?pm]
       h1 h2 h3
  show ?thesis by simp
qed

end
